theory Spec2Isabelle
  imports Main "HOL-Library.Word" "HOL-Library.Monad_Syntax"
begin

unbundle bit_operations_syntax

section \<open>Memory and the region provider\<close>

text \<open>
  The allocator of \<^verbatim>\<open>mm.c\<close> works on a byte-addressed heap. Addresses are natural
  numbers, the heap is a function from addresses to bytes, and the 8-byte words the
  allocator reads and writes (headers, footers, free-list links) are stored
  little-endian, as on the x86-64 machines the code is written for. The null pointer is
  address 0.
\<close>

type_synonym word_t = "64 word"
type_synonym size_t = "64 word"
type_synonym addr = nat
type_synonym memory = "addr \<Rightarrow> 8 word"

definition ld :: "memory \<Rightarrow> addr \<Rightarrow> word_t" where
  "ld m a =
     ucast (m a) OR push_bit 8 (ucast (m (a + 1))) OR push_bit 16 (ucast (m (a + 2))) OR
     push_bit 24 (ucast (m (a + 3))) OR push_bit 32 (ucast (m (a + 4))) OR
     push_bit 40 (ucast (m (a + 5))) OR push_bit 48 (ucast (m (a + 6))) OR
     push_bit 56 (ucast (m (a + 7)))"

definition st :: "memory \<Rightarrow> addr \<Rightarrow> word_t \<Rightarrow> memory" where
  "st m a v = (\<lambda>x. if a \<le> x \<and> x < a + 8 then ucast (drop_bit (8 * (x - a)) v) else m x)"

definition memset :: "memory \<Rightarrow> addr \<Rightarrow> 8 word \<Rightarrow> nat \<Rightarrow> memory" where
  "memset m p c n = (\<lambda>x. if p \<le> x \<and> x < p + n then c else m x)"

definition memcpy :: "memory \<Rightarrow> addr \<Rightarrow> addr \<Rightarrow> nat \<Rightarrow> memory" where
  "memcpy m dst src n = (\<lambda>x. if dst \<le> x \<and> x < dst + n then m (src + (x - dst)) else m x)"

text \<open>
  The allocator's globals (\<^verbatim>\<open>heap_start\<close>, \<^verbatim>\<open>segment_list\<close>, \<^verbatim>\<open>mini_list_start\<close>)
  together with the heap bytes and the state of the region provider.
\<close>

record mm_state =
  mem :: memory
  mem_start_brk :: addr
  mem_brk :: addr
  mem_max_addr :: addr
  heap_start :: addr
  segment_list :: "nat \<Rightarrow> addr"
  mini_list_start :: addr

text \<open>
  Modelled from the spec: the region provider (\<^verbatim>\<open>memlib\<close>, section 6.1) is not part of
  \<^verbatim>\<open>mm.c\<close>. \<^verbatim>\<open>sbrk(n)\<close> extends the region by n bytes and returns the address of the
  newly added bytes, or the error sentinel (here \<open>None\<close>) leaving the region as it was.
  The provider has a fixed capacity \<open>mem_max_addr\<close>; the argument is an \<^verbatim>\<open>intptr_t\<close>, so
  a request whose sign bit is set is negative and refused.
\<close>

definition mem_sbrk :: "size_t \<Rightarrow> mm_state \<Rightarrow> addr option \<times> mm_state" where
  "mem_sbrk incr s =
     (if sint incr < 0 \<or> mem_brk s + unat incr > mem_max_addr s then (None, s)
      else (Some (mem_brk s), s\<lparr>mem_brk := mem_brk s + unat incr\<rparr>))"

definition mem_heap_lo :: "mm_state \<Rightarrow> addr" where
  "mem_heap_lo s = mem_start_brk s"

definition mem_heap_hi :: "mm_state \<Rightarrow> addr" where
  "mem_heap_hi s = mem_brk s - 1"

section \<open>Constants and the header codec\<close>

definition wsize :: size_t where "wsize = 8"
definition dsize :: size_t where "dsize = 2 * wsize"
definition min_block_size :: size_t where "min_block_size = dsize"
definition chunksize :: size_t where "chunksize = push_bit 12 1"

definition alloc_mask :: word_t where "alloc_mask = 0x1"
definition prev_alloc_mask :: word_t where "prev_alloc_mask = 0x2"
definition prev_mini_mask :: word_t where "prev_mini_mask = 0x4"
definition size_mask :: word_t where "size_mask = NOT 0xF"

definition max_sz :: "size_t \<Rightarrow> size_t \<Rightarrow> size_t" where
  "max_sz x y = (if x > y then x else y)"

definition round_up :: "size_t \<Rightarrow> size_t \<Rightarrow> size_t" where
  "round_up sz n = n * ((sz + (n - 1)) div n)"

definition pack :: "size_t \<Rightarrow> bool \<Rightarrow> bool \<Rightarrow> bool \<Rightarrow> word_t" where
  "pack sz alloc prev_alloc prev_mini =
     (let word = sz;
          word = (if alloc then word OR alloc_mask else word);
          word = (if prev_alloc then word OR prev_alloc_mask else word);
          word = (if prev_mini then word OR prev_mini_mask else word)
      in word)"

definition extract_size :: "word_t \<Rightarrow> size_t" where
  "extract_size word = word AND size_mask"

definition extract_alloc :: "word_t \<Rightarrow> bool" where
  "extract_alloc word = (word AND alloc_mask \<noteq> 0)"

definition extract_prev_alloc :: "word_t \<Rightarrow> bool" where
  "extract_prev_alloc word = (drop_bit 1 (word AND prev_alloc_mask) \<noteq> 0)"

definition extract_prev_mini :: "word_t \<Rightarrow> bool" where
  "extract_prev_mini word = (drop_bit 2 (word AND prev_mini_mask) \<noteq> 0)"

section \<open>Blocks\<close>

text \<open>
  A \<^verbatim>\<open>block_t *\<close> is the address of the block's header. The union after the header
  holds the payload, or the two free-list links: \<^verbatim>\<open>next_free\<close> at offset 8 and
  \<^verbatim>\<open>prev_free\<close> at offset 16.
\<close>

definition get_size :: "memory \<Rightarrow> addr \<Rightarrow> size_t" where
  "get_size m block = extract_size (ld m block)"

definition get_alloc :: "memory \<Rightarrow> addr \<Rightarrow> bool" where
  "get_alloc m block = extract_alloc (ld m block)"

definition get_prev_alloc :: "memory \<Rightarrow> addr \<Rightarrow> bool" where
  "get_prev_alloc m block = extract_prev_alloc (ld m block)"

definition get_prev_mini :: "memory \<Rightarrow> addr \<Rightarrow> bool" where
  "get_prev_mini m block = extract_prev_mini (ld m block)"

definition next_free :: "memory \<Rightarrow> addr \<Rightarrow> addr" where
  "next_free m block = unat (ld m (block + 8))"

definition prev_free :: "memory \<Rightarrow> addr \<Rightarrow> addr" where
  "prev_free m block = unat (ld m (block + 16))"

definition set_next_free :: "memory \<Rightarrow> addr \<Rightarrow> addr \<Rightarrow> memory" where
  "set_next_free m block p = st m (block + 8) (of_nat p)"

definition set_prev_free :: "memory \<Rightarrow> addr \<Rightarrow> addr \<Rightarrow> memory" where
  "set_prev_free m block p = st m (block + 16) (of_nat p)"

definition payload_to_header :: "addr \<Rightarrow> addr" where
  "payload_to_header bp = bp - 8"

definition header_to_payload :: "addr \<Rightarrow> addr" where
  "header_to_payload block = block + 8"

definition header_to_footer :: "memory \<Rightarrow> addr \<Rightarrow> addr" where
  "header_to_footer m block = block + 8 + unat (get_size m block) - unat dsize"

definition footer_to_header :: "memory \<Rightarrow> addr \<Rightarrow> addr" where
  "footer_to_header m footer =
     (let sz = extract_size (ld m footer)
      in if sz = 0 then footer else footer + unat wsize - unat sz)"

definition get_payload_size :: "memory \<Rightarrow> addr \<Rightarrow> size_t" where
  "get_payload_size m block = (let asize = get_size m block in asize - wsize)"

definition write_epilogue :: "memory \<Rightarrow> addr \<Rightarrow> bool \<Rightarrow> memory" where
  "write_epilogue m block is_prev_mini = st m block (pack 0 True False is_prev_mini)"

definition find_next :: "memory \<Rightarrow> addr \<Rightarrow> addr" where
  "find_next m block = block + unat (get_size m block)"

definition find_prev_footer :: "addr \<Rightarrow> addr" where
  "find_prev_footer block = block - 8"

definition find_prev :: "memory \<Rightarrow> addr \<Rightarrow> addr" where
  "find_prev m block = footer_to_header m (find_prev_footer block)"

definition write_miniblock :: "memory \<Rightarrow> addr \<Rightarrow> size_t \<Rightarrow> bool \<Rightarrow> bool \<Rightarrow> bool \<Rightarrow> memory" where
  "write_miniblock m block sz alloc prev_alloc prev_mini =
     (let m1 = st m block (pack sz alloc prev_alloc prev_mini);
          next_block = find_next m1 block;
          is_next_alloc = get_alloc m1 next_block;
          next_size = get_size m1 next_block
      in st m1 next_block (pack next_size is_next_alloc alloc True))"

definition write_block :: "memory \<Rightarrow> addr \<Rightarrow> size_t \<Rightarrow> bool \<Rightarrow> bool \<Rightarrow> bool \<Rightarrow> memory" where
  "write_block m block sz alloc prev_alloc prev_mini =
     (if sz = min_block_size then write_miniblock m block sz alloc prev_alloc prev_mini
      else
        let m1 = (if alloc then st m block (pack sz alloc prev_alloc prev_mini)
                  else
                    let m' = st m block (pack sz alloc prev_alloc prev_mini);
                        footerp = header_to_footer m' block
                    in st m' footerp (pack sz alloc prev_alloc prev_mini));
            next_block = find_next m1 block;
            is_next_alloc = get_alloc m1 next_block;
            next_size = get_size m1 next_block
        in st m1 next_block (pack next_size is_next_alloc alloc False))"

section \<open>Free lists\<close>

definition determine_seg_index :: "size_t \<Rightarrow> nat" where
  "determine_seg_index sz =
     (if sz \<le> 16 then 0
      else if sz \<le> 32 then 1
      else if sz \<le> 64 then 2
      else if sz \<le> 128 then 3
      else if sz \<le> 256 then 4
      else if sz \<le> 512 then 5
      else if sz \<le> 1024 then 6
      else if sz \<le> 2048 then 7
      else if sz \<le> 4096 then 8
      else 9)"

definition SEG_LIST_LEN :: nat where "SEG_LIST_LEN = 10"

definition add_to_mini_free_list :: "addr \<Rightarrow> mm_state \<Rightarrow> mm_state" where
  "add_to_mini_free_list block s =
     (if mini_list_start s = 0
      then s\<lparr>mini_list_start := block, mem := set_next_free (mem s) block 0\<rparr>
      else s\<lparr>mem := set_next_free (mem s) block (mini_list_start s),
               mini_list_start := block\<rparr>)"

definition add_to_free_list :: "addr \<Rightarrow> mm_state \<Rightarrow> mm_state" where
  "add_to_free_list block s =
     (let sz = get_size (mem s) block in
      if sz = min_block_size then add_to_mini_free_list block s
      else
        let index = determine_seg_index sz in
        if segment_list s index = 0
        then s\<lparr>segment_list := (segment_list s)(index := block),
                 mem := set_next_free (set_prev_free (mem s) block 0) block 0\<rparr>
        else
          let m1 = set_next_free (mem s) block (segment_list s index);
              m2 = set_prev_free m1 (segment_list s index) block;
              m3 = set_prev_free m2 block 0
          in s\<lparr>mem := m3, segment_list := (segment_list s)(index := block)\<rparr>)"

text \<open>
  The search loop of \<^verbatim>\<open>remove_from_mini_free_list\<close>: it walks the mini list until it
  meets the block or the end, and returns the last two nodes it looked at. On a cyclic
  list that does not hold the block the loop does not return (\<open>None\<close>).
\<close>

partial_function (option) mini_search :: "memory \<Rightarrow> addr \<Rightarrow> addr \<Rightarrow> addr \<Rightarrow> (addr \<times> addr) option" where
  "mini_search m block current prev =
     (if current \<noteq> 0 \<and> current \<noteq> block
      then mini_search m block (next_free m current) current
      else Some (current, prev))"

declare mini_search.simps [code]

definition remove_from_mini_free_list :: "addr \<Rightarrow> mm_state \<Rightarrow> mm_state option" where
  "remove_from_mini_free_list block s =
     do {
       (current, prev) \<leftarrow> mini_search (mem s) block (mini_list_start s) 0;
       if current = 0 then Some s
       else if prev = 0 then Some (s\<lparr>mini_list_start := next_free (mem s) current\<rparr>)
       else Some (s\<lparr>mem := set_next_free (mem s) prev (next_free (mem s) current)\<rparr>)
     }"

definition remove_from_free_list :: "addr \<Rightarrow> mm_state \<Rightarrow> mm_state option" where
  "remove_from_free_list block s =
     (let sz = get_size (mem s) block in
      if sz = min_block_size then remove_from_mini_free_list block s
      else
        let index = determine_seg_index sz;
            next = next_free (mem s) block;
            prev = prev_free (mem s) block;
            s1 = (if prev \<noteq> 0 then s\<lparr>mem := set_next_free (mem s) prev next\<rparr>
                  else s\<lparr>segment_list := (segment_list s)(index := next)\<rparr>);
            s2 = (if next \<noteq> 0 then s1\<lparr>mem := set_prev_free (mem s1) next prev\<rparr> else s1);
            m3 = set_next_free (mem s2) block 0;
            m4 = set_prev_free m3 block 0
        in Some (s2\<lparr>mem := m4\<rparr>))"

section \<open>Coalescing, extending and splitting\<close>

definition coalesce_block :: "addr \<Rightarrow> mm_state \<Rightarrow> (addr \<times> mm_state) option" where
  "coalesce_block block s =
     (let next = find_next (mem s) block;
          next_is_free = \<not> get_alloc (mem s) next;
          prev_is_free = \<not> get_prev_alloc (mem s) block;
          prev_mini = get_prev_mini (mem s) block
      in
      if \<not> prev_is_free \<and> \<not> next_is_free then
        Some (block, add_to_free_list block s)
      else if \<not> prev_is_free \<and> next_is_free then
        do {
          s1 \<leftarrow> remove_from_free_list next s;
          let new_size = get_size (mem s1) block + get_size (mem s1) next;
          let s2 = s1\<lparr>mem := write_block (mem s1) block new_size False True prev_mini\<rparr>;
          Some (block, add_to_free_list block s2)
        }
      else if prev_is_free \<and> \<not> next_is_free then
        do {
          let prev = (if prev_mini then block - unat min_block_size
                      else find_prev (mem s) block);
          s1 \<leftarrow> remove_from_free_list prev s;
          let new_size = get_size (mem s1) prev + get_size (mem s1) block;
          let s2 = s1\<lparr>mem := write_block (mem s1) prev new_size False
                                 (get_prev_alloc (mem s1) prev) (get_prev_mini (mem s1) prev)\<rparr>;
          Some (prev, add_to_free_list prev s2)
        }
      else
        do {
          let prev = (if prev_mini then block - unat min_block_size
                      else find_prev (mem s) block);
          s1 \<leftarrow> remove_from_free_list prev s;
          s2 \<leftarrow> remove_from_free_list next s1;
          let new_size = get_size (mem s2) prev + get_size (mem s2) block + get_size (mem s2) next;
          let s3 = s2\<lparr>mem := write_block (mem s2) prev new_size False
                                 (get_prev_alloc (mem s2) prev) (get_prev_mini (mem s2) prev)\<rparr>;
          Some (prev, add_to_free_list prev s3)
        })"

definition extend_heap :: "size_t \<Rightarrow> mm_state \<Rightarrow> (addr \<times> mm_state) option" where
  "extend_heap sz0 s =
     (let sz = round_up sz0 dsize in
      case mem_sbrk sz s of
        (None, s1) \<Rightarrow> Some (0, s1)
      | (Some bp, s1) \<Rightarrow>
          let block = payload_to_header bp;
              m1 = write_block (mem s1) block sz False
                     (get_prev_alloc (mem s1) block) (get_prev_mini (mem s1) block);
              block_next = find_next m1 block;
              m2 = write_epilogue m1 block_next (get_size m1 block = min_block_size)
          in coalesce_block block (s1\<lparr>mem := m2\<rparr>))"

definition split_block :: "addr \<Rightarrow> size_t \<Rightarrow> mm_state \<Rightarrow> mm_state" where
  "split_block block asize s =
     (let block_size = get_size (mem s) block in
      if block_size - asize \<ge> min_block_size then
        let m1 = write_block (mem s) block asize True
                   (get_prev_alloc (mem s) block) (get_prev_mini (mem s) block);
            block_next = find_next m1 block;
            m2 = write_block m1 block_next (block_size - asize) False True
                   (get_size m1 block = min_block_size)
        in add_to_free_list block_next (s\<lparr>mem := m2\<rparr>)
      else s)"

section \<open>Finding a fit\<close>

definition find_mini_fit :: "size_t \<Rightarrow> mm_state \<Rightarrow> addr" where
  "find_mini_fit asize s = (if mini_list_start s \<noteq> 0 then mini_list_start s else 0)"

text \<open>
  The innermost loop of \<^verbatim>\<open>find_fit\<close>. The source counts \<^verbatim>\<open>counter\<close> up from 0 and
  returns when it is 20; here \<open>k\<close> is \<open>20 - counter\<close>, counted down.
\<close>

fun better_fit :: "memory \<Rightarrow> size_t \<Rightarrow> nat \<Rightarrow> addr \<Rightarrow> addr \<Rightarrow> size_t \<Rightarrow> addr" where
  "better_fit m asize k compare_block best_fit best_size =
     (if compare_block = 0 then best_fit
      else
        let compare_size = get_size m compare_block;
            better = (compare_size < best_size \<and> compare_size \<ge> asize);
            best_fit1 = (if better then compare_block else best_fit);
            best_size1 = (if better then compare_size else best_size)
        in case k of
             0 \<Rightarrow> best_fit1
           | Suc k' \<Rightarrow> better_fit m asize k' (next_free m compare_block) best_fit1 best_size1)"

text \<open>
  The middle loop: walk one segregated list to the first block that is large enough.
  \<open>Some None\<close>: the list ended without a fit, \<open>Some (Some b)\<close>: the function returns
  \<open>b\<close>, \<open>None\<close>: the walk does not end.
\<close>

partial_function (option) seg_fit :: "memory \<Rightarrow> size_t \<Rightarrow> addr \<Rightarrow> addr option option" where
  "seg_fit m asize block =
     (if block = 0 then Some None
      else
        let available_size = get_size m block in
        if available_size \<ge> asize
        then Some (Some (better_fit m asize 20 block block available_size))
        else seg_fit m asize (next_free m block))"

declare seg_fit.simps [code]

function find_fit_from :: "mm_state \<Rightarrow> size_t \<Rightarrow> nat \<Rightarrow> addr option" where
  "find_fit_from s asize i =
     (if i < SEG_LIST_LEN then
        Option.bind (seg_fit (mem s) asize (segment_list s i))
          (\<lambda>r. case r of Some b \<Rightarrow> Some b | None \<Rightarrow> find_fit_from s asize (i + 1))
      else Some 0)"
  by pat_completeness auto
termination
  by (relation "measure (\<lambda>(s, asize, i). SEG_LIST_LEN - i)") auto

definition find_fit :: "size_t \<Rightarrow> mm_state \<Rightarrow> addr option" where
  "find_fit asize s =
     (let mini_block_fit = (if asize = min_block_size then find_mini_fit asize s else 0) in
      if mini_block_fit \<noteq> 0 then Some mini_block_fit
      else
        let index = determine_seg_index asize
        in find_fit_from s asize index)"

section \<open>The public operations\<close>

definition mm_init :: "mm_state \<Rightarrow> (bool \<times> mm_state) option" where
  "mm_init s =
     (case mem_sbrk (2 * wsize) s of
        (None, s1) \<Rightarrow> Some (False, s1)
      | (Some start, s1) \<Rightarrow>
          let s2 = s1\<lparr>segment_list := fold (\<lambda>i sl. sl(i := 0)) [0..<SEG_LIST_LEN] (segment_list s1)\<rparr>;
              s3 = s2\<lparr>mini_list_start := 0\<rparr>;
              m1 = st (mem s3) start (pack 0 True False False);
              m2 = st m1 (start + 8) (pack 0 True True False);
              s4 = s3\<lparr>mem := m2, heap_start := start + 8\<rparr>
          in do {
               (block, s5) \<leftarrow> extend_heap chunksize s4;
               if block = 0 then Some (False, s5) else Some (True, s5)
             })"

definition malloc :: "size_t \<Rightarrow> mm_state \<Rightarrow> (addr \<times> mm_state) option" where
  "malloc sz s =
     do {
       (ok, s1) \<leftarrow> (if heap_start s = 0 then mm_init s else Some (True, s));
       if \<not> ok then Some (0, s1)
       else if sz = 0 then Some (0, s1)
       else do {
         let asize = round_up (sz + wsize) dsize;
         fit \<leftarrow> find_fit asize s1;
         (block, s2) \<leftarrow> (if fit = 0 then extend_heap (max_sz asize chunksize) s1
                          else Some (fit, s1));
         if block = 0 then Some (0, s2)
         else do {
           let block_size = get_size (mem s2) block;
           let s3 = s2\<lparr>mem := write_block (mem s2) block block_size True
                                  (get_prev_alloc (mem s2) block) (get_prev_mini (mem s2) block)\<rparr>;
           s4 \<leftarrow> remove_from_free_list block s3;
           let s5 = split_block block asize s4;
           Some (header_to_payload block, s5)
         }
       }
     }"

definition free :: "addr \<Rightarrow> mm_state \<Rightarrow> mm_state option" where
  "free bp s =
     (if bp = 0 then Some s
      else
        let block = payload_to_header bp;
            sz = get_size (mem s) block;
            s1 = s\<lparr>mem := write_block (mem s) block sz False
                               (get_prev_alloc (mem s) block) (get_prev_mini (mem s) block)\<rparr>
        in do { (b, s2) \<leftarrow> coalesce_block block s1; Some s2 })"

definition realloc :: "addr \<Rightarrow> size_t \<Rightarrow> mm_state \<Rightarrow> (addr \<times> mm_state) option" where
  "realloc ptr sz s =
     (let block = payload_to_header ptr in
      if sz = 0 then do { s1 \<leftarrow> free ptr s; Some (0, s1) }
      else if ptr = 0 then malloc sz s
      else do {
        (newptr, s1) \<leftarrow> malloc sz s;
        if newptr = 0 then Some (0, s1)
        else do {
          let copysize0 = get_payload_size (mem s1) block;
          let copysize = (if sz < copysize0 then sz else copysize0);
          let s2 = s1\<lparr>mem := memcpy (mem s1) newptr ptr (unat copysize)\<rparr>;
          s3 \<leftarrow> free ptr s2;
          Some (newptr, s3)
        }
      })"

definition calloc :: "size_t \<Rightarrow> size_t \<Rightarrow> mm_state \<Rightarrow> (addr \<times> mm_state) option" where
  "calloc elements sz s =
     (let asize = elements * sz in
      if elements = 0 then Some (0, s)
      else if asize div elements \<noteq> sz then Some (0, s)
      else do {
        (bp, s1) \<leftarrow> malloc asize s;
        if bp = 0 then Some (0, s1)
        else Some (bp, s1\<lparr>mem := memset (mem s1) bp 0 (unat asize)\<rparr>)
      })"

section \<open>An example region\<close>

text \<open>
  A fresh region of one megabyte starting at address 4096, before \<^verbatim>\<open>mm_init\<close>: the
  allocator's globals are null, as C initialises them.
\<close>

definition example_start :: mm_state where
  "example_start =
     \<lparr>mem = (\<lambda>_. 0), mem_start_brk = 4096, mem_brk = 4096, mem_max_addr = 1048576,
      heap_start = 0, segment_list = (\<lambda>_. 0), mini_list_start = 0\<rparr>"

section \<open>Load and store\<close>

lemma st_bytes:
  "st m a v a = ucast v" "st m a v (a + 1) = ucast (drop_bit 8 v)"
  "st m a v (a + 2) = ucast (drop_bit 16 v)" "st m a v (a + 3) = ucast (drop_bit 24 v)"
  "st m a v (a + 4) = ucast (drop_bit 32 v)" "st m a v (a + 5) = ucast (drop_bit 40 v)"
  "st m a v (a + 6) = ucast (drop_bit 48 v)" "st m a v (a + 7) = ucast (drop_bit 56 v)"
  by (simp_all add: st_def)

lemma byte_bit:
  "bit (push_bit k (ucast (ucast (drop_bit k (v::word_t)) :: 8 word)) :: word_t) n
     = (k \<le> n \<and> n < k + 8 \<and> n < 64 \<and> bit v n)"
  by (auto simp: bit_simps)

lemma byte_bit0:
  "bit (ucast (ucast (v::word_t) :: 8 word) :: word_t) n = (n < 8 \<and> bit v n)"
  by (auto simp: bit_simps)

lemma ld_st_same [simp]: "ld (st m a v) a = v"
  unfolding ld_def st_bytes
proof (rule bit_word_eqI)
  fix n assume n: "n < LENGTH(64)"
  then have "n < 8 \<or> (8 \<le> n \<and> n < 16) \<or> (16 \<le> n \<and> n < 24) \<or> (24 \<le> n \<and> n < 32)
     \<or> (32 \<le> n \<and> n < 40) \<or> (40 \<le> n \<and> n < 48) \<or> (48 \<le> n \<and> n < 56) \<or> (56 \<le> n \<and> n < 64)"
    by simp arith
  then show "bit (ucast (ucast v :: 8 word) OR push_bit 8 (ucast (ucast (drop_bit 8 v):: 8 word)) OR
            push_bit 16 (ucast (ucast (drop_bit 16 v):: 8 word)) OR
            push_bit 24 (ucast (ucast (drop_bit 24 v):: 8 word)) OR
            push_bit 32 (ucast (ucast (drop_bit 32 v):: 8 word)) OR
            push_bit 40 (ucast (ucast (drop_bit 40 v):: 8 word)) OR
            push_bit 48 (ucast (ucast (drop_bit 48 v):: 8 word)) OR
            push_bit 56 (ucast (ucast (drop_bit 56 v):: 8 word)) :: word_t) n = bit v n"
    unfolding bit_or_iff byte_bit byte_bit0 by (elim disjE) simp_all
qed

lemma ld_st_other: "a + 8 \<le> b \<or> b + 8 \<le> a \<Longrightarrow> ld (st m a v) b = ld m b"
  by (auto simp: ld_def st_def)

lemma ld_st:
  "a = b \<or> a + 8 \<le> b \<or> b + 8 \<le> a \<Longrightarrow> ld (st m a v) b = (if a = b then v else ld m b)"
  by (auto simp: ld_st_other)

lemma ld_zero: "ld (\<lambda>_. 0) a = 0"
  by (simp add: ld_def)

section \<open>Rules for running the model\<close>

text \<open>
  The definitions are unfolded by the simplifier; loads from a chain of stores are
  resolved by \<open>ld_st\<close>, and the two list walks by the conditional rules below.
\<close>

lemma fold_clear:
  "fold (\<lambda>i sl. sl(i := (0::nat))) [0..<n] f = (\<lambda>i. if i < n then 0 else f i)"
  by (induction n) (auto simp: fun_eq_iff)

lemma seg_fit_null: "seg_fit m asize 0 = Some None"
  by (subst seg_fit.simps) simp

lemma seg_fit_hit:
  "block \<noteq> 0 \<Longrightarrow> get_size m block \<ge> asize \<Longrightarrow>
   seg_fit m asize block = Some (Some (better_fit m asize 20 block block (get_size m block)))"
  by (subst seg_fit.simps) (simp add: Let_def)

lemma seg_fit_miss:
  "block \<noteq> 0 \<Longrightarrow> \<not> get_size m block \<ge> asize \<Longrightarrow>
   seg_fit m asize block = seg_fit m asize (next_free m block)"
  by (subst seg_fit.simps) (simp add: Let_def)

lemma mini_search_stop:
  "current = 0 \<or> current = block \<Longrightarrow> mini_search m block current prev = Some (current, prev)"
  by (subst mini_search.simps) auto

lemma mini_search_step:
  "current \<noteq> 0 \<Longrightarrow> current \<noteq> block \<Longrightarrow>
   mini_search m block current prev = mini_search m block (next_free m current) current"
  by (subst mini_search.simps) auto

declare find_fit_from.simps [simp del]

lemmas codec_defs = pack_def extract_size_def extract_alloc_def extract_prev_alloc_def
  extract_prev_mini_def alloc_mask_def prev_alloc_mask_def prev_mini_mask_def size_mask_def
  wsize_def dsize_def min_block_size_def chunksize_def round_up_def max_sz_def

lemmas block_defs = get_size_def get_alloc_def get_prev_alloc_def get_prev_mini_def
  next_free_def prev_free_def set_next_free_def set_prev_free_def payload_to_header_def
  header_to_payload_def header_to_footer_def footer_to_header_def get_payload_size_def
  write_epilogue_def find_next_def find_prev_footer_def find_prev_def write_miniblock_def
  write_block_def

lemmas list_defs = determine_seg_index_def SEG_LIST_LEN_def add_to_mini_free_list_def
  add_to_free_list_def remove_from_mini_free_list_def remove_from_free_list_def

lemmas op_defs = coalesce_block_def extend_heap_def split_block_def find_mini_fit_def
  find_fit_def find_fit_from.simps mm_init_def malloc_def free_def mem_sbrk_def

lemmas run_simps = op_defs list_defs block_defs codec_defs Let_def ld_st ld_zero
  seg_fit_null seg_fit_hit seg_fit_miss mini_search_stop mini_search_step fold_clear

lemmas run_fast = op_defs list_defs block_defs codec_defs Let_def ld_st_other ld_zero
  seg_fit_null seg_fit_hit seg_fit_miss mini_search_stop mini_search_step fold_clear

section \<open>Size arithmetic\<close>

lemma round_up_16:
  assumes "unat x + 15 < 2 ^ 64"
  shows "unat (round_up x dsize) = 16 * ((unat x + 15) div 16)"
proof -
  have a: "unat (x + 15) = unat x + 15"
    using assms by (simp add: unat_add_lem [THEN iffD1])
  have b: "unat ((x + 15) div 16) = (unat x + 15) div 16"
    by (simp add: unat_div a)
  have "16 * ((unat x + 15) div 16) \<le> unat x + 15" by simp
  then have c: "unat (16 :: 64 word) * unat ((x + 15) div 16) < 2 ^ LENGTH(64)"
    using assms b by simp
  have "unat (16 * ((x + 15) div 16)) = unat (16 :: 64 word) * unat ((x + 15) div 16)"
    using c by (simp only: unat_mult_lem [THEN iffD1])
  then show ?thesis
    by (simp add: round_up_def dsize_def wsize_def b)
qed

lemma round_up_aligned:
  assumes "unat x mod 16 = 0"
  shows "round_up x dsize = x"
proof -
  have "unat x < 18446744073709551616" using unsigned_less [of x] by simp
  with assms have "unat x + 15 < 18446744073709551616" by presburger
  then have lt: "unat x + 15 < 2 ^ 64" by simp
  have "unat (round_up x dsize) = 16 * ((unat x + 15) div 16)"
    by (rule round_up_16 [OF lt])
  also have "\<dots> = unat x" using assms by presburger
  finally show ?thesis by (simp add: word_unat_eq_iff)
qed

lemma round_up_mod16: "unat (round_up x dsize) mod 16 = 0"
proof -
  have "unat (round_up x dsize) = (16 * unat ((x + 15) div 16)) mod 2 ^ 64"
    by (simp add: round_up_def dsize_def wsize_def unat_word_ariths)
  also have "\<dots> mod 16 = 0"
    by (simp add: mod_mod_cancel)
  finally show ?thesis .
qed

lemma malloc_asize_floor:
  assumes "0 < unat n" "unat n \<le> 2 ^ 64 - 24"
  shows "16 \<le> unat (round_up (n + wsize) dsize)"
    and "unat n + 8 \<le> unat (round_up (n + wsize) dsize)"
    and "unat (round_up (n + wsize) dsize) mod 16 = 0"
proof -
  have a: "unat (n + wsize) = unat n + 8"
    using assms by (simp add: wsize_def unat_add_lem [THEN iffD1])
  have r: "unat (round_up (n + wsize) dsize) = 16 * ((unat n + 23) div 16)"
    using assms by (simp add: round_up_16 a)
  show "16 \<le> unat (round_up (n + wsize) dsize)" using assms r by simp
  show "unat n + 8 \<le> unat (round_up (n + wsize) dsize)" unfolding r by arith
  show "unat (round_up (n + wsize) dsize) mod 16 = 0" unfolding r by simp
qed

lemma extend_request_large:
  "4096 \<le> unat (round_up (max_sz (round_up x dsize) chunksize) dsize)"
proof -
  have c: "unat chunksize = 4096" by (simp add: chunksize_def)
  have "unat (max_sz (round_up x dsize) chunksize) mod 16 = 0"
    using round_up_mod16 [of x] by (simp add: max_sz_def c)
  then have "round_up (max_sz (round_up x dsize) chunksize) dsize = max_sz (round_up x dsize) chunksize"
    by (rule round_up_aligned)
  moreover have "4096 \<le> unat (max_sz (round_up x dsize) chunksize)"
    using c by (auto simp: max_sz_def word_less_nat_alt)
  ultimately show ?thesis by simp
qed

lemma calloc_overflow:
  assumes "elements \<noteq> 0" "2 ^ 64 \<le> unat elements * unat sz"
  shows "(elements * sz) div elements \<noteq> (sz :: size_t)"
proof
  assume "(elements * sz) div elements = sz"
  then have "unat (elements * sz) div unat elements = unat sz"
    by (metis unat_div)
  moreover have "0 < unat elements" using assms(1) by (simp add: unat_gt_0)
  ultimately have "unat elements * unat sz \<le> unat (elements * sz)"
    using times_div_less_eq_dividend [of "unat elements" "unat (elements * sz)"] by simp
  moreover have "unat (elements * sz) < 2 ^ 64" using unsigned_less [of "elements * sz"] by simp
  ultimately show False using assms(2) by simp
qed

lemma calloc_no_overflow:
  assumes "elements \<noteq> 0" "(elements * sz) div elements = (sz :: size_t)"
  shows "unat (elements * sz) = unat elements * unat sz"
proof -
  have "unat elements * unat sz < 2 ^ 64"
    using calloc_overflow [OF assms(1), of sz] assms(2) by (meson not_le)
  then show ?thesis by (simp add: unat_mult_lem [THEN iffD1])
qed

section \<open>The adjusted size of a request\<close>

text \<open>
  C4. \<^verbatim>\<open>malloc\<close> computes \<open>asize = round_up (n + 8) 16\<close> in 64-bit unsigned arithmetic.
  At the request \<open>n = 2^64 - 8\<close> the sum \<open>n + 8\<close> wraps to 0 and the adjusted size is 0,
  below the floor of 16: the source has no guard against the overflow.
\<close>

theorem malloc_asize_overflow:
  "round_up (0xFFFFFFFFFFFFFFF8 + wsize) dsize = 0"
  by (simp add: round_up_def wsize_def dsize_def)

section \<open>The write-block contract\<close>

text \<open>
  C5. After \<open>malloc 24\<close> on the fresh example region the heap holds an allocated block of
  32 bytes followed by a free block of 4064 bytes. \<^verbatim>\<open>free\<close> of that pointer begins with
  \<^verbatim>\<open>write_block\<close> on the allocated block. The call updates the header of the free
  successor (its prev-alloc bit becomes 0), and leaves the successor's footer as it was:
  footer and header of the free, non-mini successor now differ.
\<close>

theorem write_block_stale_footer:
  "\<exists>p s. malloc 24 example_start = Some (p, s) \<and>
       (let block = payload_to_header p;
            m' = write_block (mem s) block (get_size (mem s) block) False
                   (get_prev_alloc (mem s) block) (get_prev_mini (mem s) block);
            next = find_next m' block
        in \<not> get_alloc m' next \<and> get_size m' next \<noteq> min_block_size \<and>
           \<not> get_prev_alloc m' next \<and> \<not> get_prev_mini m' next \<and>
           ld m' (header_to_footer m' next) \<noteq> ld m' next)"
proof -
  have "\<exists>s. malloc 24 example_start = Some (4112, s) \<and> ld (mem s) 4104 = 35 \<and>
          ld (mem s) 4136 = 4066 \<and> ld (mem s) 8192 = 4066"
    by (simp add: example_start_def run_fast)
  then obtain s where s: "malloc 24 example_start = Some (4112, s)" "ld (mem s) 4104 = 35"
    "ld (mem s) 4136 = 4066" "ld (mem s) 8192 = 4066" by blast
  have "let block = payload_to_header 4112;
            m' = write_block (mem s) block (get_size (mem s) block) False
                   (get_prev_alloc (mem s) block) (get_prev_mini (mem s) block);
            next = find_next m' block
        in \<not> get_alloc m' next \<and> get_size m' next \<noteq> min_block_size \<and>
           \<not> get_prev_alloc m' next \<and> \<not> get_prev_mini m' next \<and>
           ld m' (header_to_footer m' next) \<noteq> ld m' next"
    unfolding Let_def payload_to_header_def
    by (simp add: s block_defs codec_defs ld_st_other Let_def)
  with s(1) show ?thesis by blast
qed

section \<open>Zero-initialised allocation\<close>

text \<open>
  C8. \<^verbatim>\<open>calloc\<close> returns null, leaving the state alone, when the element count is 0 or
  when the product of its arguments does not fit in 64 bits; and when it returns a
  non-null pointer, each of the \<open>elements * sz\<close> bytes from that pointer on is zero.
\<close>

theorem calloc_null_or_zeroed:
  "(elements = 0 \<or> 2 ^ 64 \<le> unat elements * unat sz \<longrightarrow> calloc elements sz s = Some (0, s)) \<and>
   (calloc elements sz s = Some (bp, s') \<and> bp \<noteq> 0 \<longrightarrow>
      (\<forall>i < unat elements * unat sz. mem s' (bp + i) = 0))"
proof (intro conjI impI)
  assume "elements = 0 \<or> 2 ^ 64 \<le> unat elements * unat sz"
  then show "calloc elements sz s = Some (0, s)"
  proof
    assume "elements = 0" then show ?thesis by (simp add: calloc_def)
  next
    assume o: "2 ^ 64 \<le> unat elements * unat sz"
    show ?thesis
    proof (cases "elements = 0")
      case True then show ?thesis by (simp add: calloc_def)
    next
      case False
      from calloc_overflow [OF False o] show ?thesis by (simp add: calloc_def Let_def)
    qed
  qed
next
  assume a: "calloc elements sz s = Some (bp, s') \<and> bp \<noteq> 0"
  then have e: "elements \<noteq> 0" and d: "(elements * sz) div elements = sz"
    by (auto simp: calloc_def Let_def split: if_splits)
  from a e d obtain s1 where "s' = s1\<lparr>mem := memset (mem s1) bp 0 (unat (elements * sz))\<rparr>"
    by (auto simp: calloc_def Let_def split: if_splits Option.bind_splits)
  then show "\<forall>i < unat elements * unat sz. mem s' (bp + i) = 0"
    by (simp add: memset_def calloc_no_overflow [OF e d])
qed

theorem calloc_null_or_zeroed_witness:
  "calloc 0 100 example_start = Some (0, example_start) \<and>
   calloc (2 ^ 40) (2 ^ 40) example_start = Some (0, example_start) \<and>
   (\<exists>s'. calloc 3 5 example_start = Some (4112, s') \<and> (\<forall>i < 15. mem s' (4112 + i) = 0))"
proof -
  have a: "calloc 0 100 example_start = Some (0, example_start)"
    using calloc_null_or_zeroed [of 0 100 example_start] by simp
  have b: "calloc (2 ^ 40) (2 ^ 40) example_start = Some (0, example_start)"
    using calloc_null_or_zeroed [of "2 ^ 40" "2 ^ 40" example_start] by simp
  have "\<exists>s'. calloc 3 5 example_start = Some (4112, s')"
    by (simp add: calloc_def example_start_def run_fast)
  then obtain s' where c: "calloc 3 5 example_start = Some (4112, s')" ..
  then have "\<forall>i < 15. mem s' (4112 + i) = 0"
    using calloc_null_or_zeroed [of 3 5 example_start 4112 s'] by simp
  with a b c show ?thesis by blast
qed

section \<open>Allocation before initialisation\<close>

lemma mm_init_fail1:
  "mem_max_addr s < mem_brk s + 16 \<Longrightarrow> mm_init s = Some (False, s)"
  by (simp add: mm_init_def mem_sbrk_def wsize_def)

lemma mm_init_fail2:
  "mem_brk s + 16 \<le> mem_max_addr s \<Longrightarrow> mem_max_addr s < mem_brk s + 4112 \<Longrightarrow>
   \<exists>s4. mm_init s = Some (False, s4) \<and> heap_start s4 = mem_brk s + 8 \<and> mini_list_start s4 = 0 \<and>
     (\<forall>i<10. segment_list s4 i = 0) \<and> mem_brk s4 = mem_brk s + 16 \<and>
     mem_max_addr s4 = mem_max_addr s"
  apply (simp add: mm_init_def mem_sbrk_def wsize_def Let_def fold_clear SEG_LIST_LEN_def)
  apply (simp add: extend_heap_def mem_sbrk_def round_up_def chunksize_def dsize_def wsize_def)
  done

lemma mm_init_ok:
  "mem_brk s + 4112 \<le> mem_max_addr s \<Longrightarrow>
   \<exists>s5. mm_init s = Some (True, s5) \<and> heap_start s5 = mem_brk s + 8"
  by (simp add: run_simps)

lemma find_fit_from_empty:
  "\<forall>i<10. segment_list s i = 0 \<Longrightarrow> find_fit_from s asize i = Some 0"
proof (induction s asize i rule: find_fit_from.induct)
  case (1 s asize i)
  show ?case
  proof (cases "i < SEG_LIST_LEN")
    case True
    then have z: "segment_list s i = 0" using 1(2) by (simp add: SEG_LIST_LEN_def)
    have "find_fit_from s asize (i + 1) = Some 0"
      using 1(1) True z 1(2) by (simp add: seg_fit_null)
    then show ?thesis using True z by (subst find_fit_from.simps) (simp add: seg_fit_null)
  next
    case False
    then show ?thesis by (subst find_fit_from.simps) simp
  qed
qed

lemma find_fit_empty:
  "\<forall>i<10. segment_list s i = 0 \<Longrightarrow> mini_list_start s = 0 \<Longrightarrow> find_fit asize s = Some 0"
  by (simp add: find_fit_def find_mini_fit_def find_fit_from_empty)

lemma malloc_exhausted:
  assumes "heap_start s \<noteq> 0" "mini_list_start s = 0" "\<forall>i<10. segment_list s i = 0"
    and "mem_max_addr s < mem_brk s + 4096"
  shows "malloc n s = Some (0, s)"
proof -
  let ?x = "round_up (max_sz (round_up (n + wsize) dsize) chunksize) dsize"
  have "mem_max_addr s < mem_brk s + unat ?x"
    using extend_request_large [of "n + wsize"] assms(4) by linarith
  then have "extend_heap (max_sz (round_up (n + wsize) dsize) chunksize) s = Some (0, s)"
    by (simp add: extend_heap_def mem_sbrk_def Let_def)
  then show ?thesis
    using assms(1-3) by (simp add: malloc_def find_fit_empty Let_def)
qed

text \<open>
  C10. Called while \<^verbatim>\<open>heap_start\<close> is still null, \<^verbatim>\<open>malloc\<close> runs \<^verbatim>\<open>mm_init\<close> itself
  (sentinels, cleared lists, a first extension by \<^verbatim>\<open>chunksize\<close>) and then serves the
  request: the call has the result and the final state of \<^verbatim>\<open>mm_init\<close> followed by the
  same \<^verbatim>\<open>malloc\<close>, also when the provider refuses one of the two extensions.
\<close>

theorem malloc_initializes_heap:
  assumes "heap_start s = 0"
  shows "malloc n s = mm_init s \<bind> (\<lambda>(ok, s1). malloc n s1)"
proof -
  consider (a) "mem_max_addr s < mem_brk s + 16"
    | (b) "mem_brk s + 16 \<le> mem_max_addr s" "mem_max_addr s < mem_brk s + 4112"
    | (c) "mem_brk s + 4112 \<le> mem_max_addr s"
    by linarith
  then show ?thesis
  proof cases
    case a
    then have "mm_init s = Some (False, s)" by (rule mm_init_fail1)
    then show ?thesis by simp
  next
    case b
    from mm_init_fail2 [OF b] obtain s4 where s4: "mm_init s = Some (False, s4)"
      "heap_start s4 = mem_brk s + 8" "mini_list_start s4 = 0" "\<forall>i<10. segment_list s4 i = 0"
      "mem_brk s4 = mem_brk s + 16" "mem_max_addr s4 = mem_max_addr s" by blast
    have "malloc n s4 = Some (0, s4)"
      by (rule malloc_exhausted) (use s4 b in simp_all)
    moreover have "malloc n s = Some (0, s4)"
      using assms s4(1) by (simp add: malloc_def)
    ultimately show ?thesis using s4(1) by simp
  next
    case c
    from mm_init_ok [OF c] obtain s5 where s5: "mm_init s = Some (True, s5)"
      "heap_start s5 = mem_brk s + 8" by blast
    show ?thesis
      using assms s5 by (simp add: malloc_def)
  qed
qed

theorem malloc_initializes_heap_witness:
  "heap_start example_start = 0 \<and>
   malloc 24 example_start = mm_init example_start \<bind> (\<lambda>(ok, s1). malloc 24 s1) \<and>
   (\<exists>s. malloc 24 example_start = Some (4112, s))"
proof -
  have h: "heap_start example_start = 0" by (simp add: example_start_def)
  have "\<exists>s. malloc 24 example_start = Some (4112, s)"
    by (simp add: example_start_def run_fast)
  with h malloc_initializes_heap [OF h, of 24] show ?thesis by blast
qed

end
